theory Spec2Isabelle
  imports Main
begin

section \<open>JavaScript values\<close>

text \<open>
  The values the program reads from HTTP responses, puts into messages and returns.
  \<open>JNum\<close> carries integers only (no fraction, no NaN); \<open>JObj\<close> lists the properties of
  an object, each key once. \<open>JNative n\<close> is the built-in
  function or object that a property read finds under the name \<open>n\<close> on
  \<open>Object.prototype\<close>: every object literal of the sources (\<open>PROVIDERS\<close>,
  \<open>FALLBACK_CHAINS\<close>, \<open>SYSTEM_PROMPTS\<close>) inherits from it, so a bracket lookup with
  such a name finds the inherited member, not \<open>undefined\<close>.
\<close>

datatype jsval =
    JUndefined
  | JNull
  | JBool bool
  | JNum int
  | JStr string
  | JArr "jsval list"
  | JObj "(string \<times> jsval) list"
  | JNative string

datatype error = TypeError string | AxiosError string

fun truthy :: "jsval \<Rightarrow> bool" where
  "truthy JUndefined = False"
| "truthy JNull = False"
| "truthy (JBool b) = b"
| "truthy (JNum n) = (n \<noteq> 0)"
| "truthy (JStr s) = (s \<noteq> [])"
| "truthy (JArr xs) = True"
| "truthy (JObj kvs) = True"
| "truthy (JNative n) = True"

fun nullish :: "jsval \<Rightarrow> bool" where
  "nullish JUndefined = True"
| "nullish JNull = True"
| "nullish v = False"

text \<open>\<open>v || null\<close>.\<close>

definition or_null :: "jsval \<Rightarrow> jsval" where
  "or_null v = (if truthy v then v else JNull)"

text \<open>
  A property read \<open>v.f\<close> on a value that is not null or undefined, for the field names the
  sources read from response bodies (none of them is a built-in member of strings,
  arrays or \<open>Object.prototype\<close>): an object gives its own property, any other value
  \<open>undefined\<close>.
\<close>

fun own_prop :: "jsval \<Rightarrow> string \<Rightarrow> jsval" where
  "own_prop (JObj kvs) f = (case map_of kvs f of Some x \<Rightarrow> x | None \<Rightarrow> JUndefined)"
| "own_prop v f = JUndefined"

text \<open>\<open>v.f\<close>: a TypeError on null and undefined.\<close>

definition get_prop :: "jsval \<Rightarrow> string \<Rightarrow> error + jsval" where
  "get_prop v f = (if nullish v then Inl (TypeError (''Cannot read properties: '' @ f))
               else Inr (own_prop v f))"

text \<open>\<open>v?.f\<close>: undefined on null and undefined.\<close>

definition opt_prop :: "jsval \<Rightarrow> string \<Rightarrow> jsval" where
  "opt_prop v f = (if nullish v then JUndefined else own_prop v f)"

text \<open>\<open>v?.[0]\<close>: the first element of an array, the first character of a string.\<close>

fun opt_first :: "jsval \<Rightarrow> jsval" where
  "opt_first (JArr xs) = (case xs of [] \<Rightarrow> JUndefined | x # _ \<Rightarrow> x)"
| "opt_first (JStr s) = (case s of [] \<Rightarrow> JUndefined | c # _ \<Rightarrow> JStr [c])"
| "opt_first (JObj kvs) = (case map_of kvs ''0'' of Some x \<Rightarrow> x | None \<Rightarrow> JUndefined)"
| "opt_first v = JUndefined"

section \<open>Configuration: the secrets\<close>

text \<open>
  \<open>API_KEYS\<close> of config.js: one environment variable each, \<open>None\<close> when the variable is
  not set (\<open>undefined\<close>).
\<close>

record api_keys =
  groq :: "string option"
  openrouter :: "string option"
  pollinations :: "string option"
  gemini :: "string option"
  cerebras :: "string option"
  sambanova :: "string option"
  cloudflare :: "string option"
  cloudflareAccount :: "string option"
  huggingface :: "string option"
  cohere :: "string option"
  siliconflow :: "string option"
  routeway :: "string option"
  tavily :: "string option"
  brave :: "string option"
  serper :: "string option"
  puter :: "string option"

text \<open>Truthiness of a secret: set and not the empty string.\<close>

fun truthy_key :: "string option \<Rightarrow> bool" where
  "truthy_key None = False"
| "truthy_key (Some s) = (s \<noteq> [])"

section \<open>The provider catalog (providers.js)\<close>

datatype endpoint = Static string | ByModel "api_keys \<Rightarrow> string \<Rightarrow> string"

text \<open>
  A provider descriptor. The display fields \<open>name\<close>, \<open>rateLimit\<close> and the \<open>models\<close> list
  are left out: no function below reads them.
\<close>

record provider =
  endpoint :: endpoint
  key :: "api_keys \<Rightarrow> string option"
  extraHeaders :: "(string \<times> string) list"

text \<open>A missing secret inside a template literal prints as \<open>undefined\<close>.\<close>

fun template_key :: "string option \<Rightarrow> string" where
  "template_key None = ''undefined''"
| "template_key (Some s) = s"

definition plain :: "string \<Rightarrow> (api_keys \<Rightarrow> string option) \<Rightarrow> provider" where
  "plain u k = \<lparr>endpoint = Static u, key = k, extraHeaders = []\<rparr>"

definition providers_table :: "(string \<times> provider) list" where
  "providers_table =
    [(''groq'', plain ''https://api.groq.com/openai/v1/chat/completions'' groq),
     (''openrouter'',
        \<lparr>endpoint = Static ''https://openrouter.ai/api/v1/chat/completions'',
         key = openrouter,
         extraHeaders = [(''HTTP-Referer'', ''https://wa-bot.local''), (''X-Title'', ''WA AI Bot'')]\<rparr>),
     (''pollinations'',
        plain ''https://gen.pollinations.ai/v1/chat/completions''
          (\<lambda>k. if truthy_key (pollinations k) then pollinations k else None)),
     (''gemini'',
        \<lparr>endpoint = ByModel (\<lambda>k m.
           ''https://generativelanguage.googleapis.com/v1beta/models/'' @ m @ '':generateContent''),
         key = gemini, extraHeaders = []\<rparr>),
     (''cerebras'', plain ''https://api.cerebras.ai/v1/chat/completions'' cerebras),
     (''sambanova'', plain ''https://api.sambanova.ai/v1/chat/completions'' sambanova),
     (''cloudflare'',
        \<lparr>endpoint = ByModel (\<lambda>k m.
           ''https://api.cloudflare.com/client/v4/accounts/'' @ template_key (cloudflareAccount k)
             @ ''/ai/run/'' @ m),
         key = cloudflare, extraHeaders = []\<rparr>),
     (''huggingface'', plain ''https://router.huggingface.co/v1/chat/completions'' huggingface),
     (''cohere'', plain ''https://api.cohere.ai/v2/chat'' cohere),
     (''siliconflow'', plain ''https://api.siliconflow.com/v1/chat/completions'' siliconflow),
     (''routeway'', plain ''https://api.routeway.ai/v1/chat/completions'' routeway),
     (''mlvoca'', plain ''https://mlvoca.com/api/generate'' (\<lambda>k. None)),
     (''puter'', plain ''https://api.puter.com/drivers/call'' puter)]"

text \<open>
  The members every object literal inherits from \<open>Object.prototype\<close>. Each is a function
  or an object: truthy, with no \<open>key\<close> method, and not iterable.
\<close>

definition object_prototype_names :: "string list" where
  "object_prototype_names =
    [''constructor'', ''__defineGetter__'', ''__defineSetter__'', ''hasOwnProperty'',
     ''__lookupGetter__'', ''__lookupSetter__'', ''isPrototypeOf'', ''propertyIsEnumerable'',
     ''toString'', ''valueOf'', ''__proto__'', ''toLocaleString'']"

text \<open>The result of a bracket lookup \<open>obj[name]\<close> in an object literal.\<close>

datatype 'a member = Own 'a | Inherited string | Absent

definition lookup :: "(string \<times> 'a) list \<Rightarrow> string \<Rightarrow> 'a member" where
  "lookup tbl name =
     (case map_of tbl name of
        Some v \<Rightarrow> Own v
      | None \<Rightarrow> if name \<in> set object_prototype_names then Inherited name else Absent)"

definition PROVIDERS :: "string \<Rightarrow> provider member" where
  "PROVIDERS name = lookup providers_table name"

definition anonymous_tier :: "string list" where
  "anonymous_tier = [''pollinations'', ''mlvoca'']"

definition no_key_method :: error where
  "no_key_method = TypeError ''key is not a function''"

text \<open>
  \<open>isProviderAvailable(name)\<close>: false when the lookup gives nothing, true for the two
  anonymous-tier names, else the truthiness of the secret. An inherited member passes the
  first test and has no \<open>key\<close> method, so the call throws.
\<close>

definition isProviderAvailable :: "api_keys \<Rightarrow> string \<Rightarrow> error + bool" where
  "isProviderAvailable keys name =
     (case PROVIDERS name of
        Absent \<Rightarrow> Inr False
      | Inherited n \<Rightarrow>
          if name \<in> set anonymous_tier then Inr True else Inl no_key_method
      | Own p \<Rightarrow>
          if name \<in> set anonymous_tier then Inr True else Inr (truthy_key (key p keys)))"

text \<open>The credential lookup of a registered provider, by name.\<close>

definition registered :: "string \<Rightarrow> bool" where
  "registered name = (name \<in> set (map fst providers_table))"

definition credential :: "api_keys \<Rightarrow> string \<Rightarrow> string option" where
  "credential keys name =
     (case map_of providers_table name of Some p \<Rightarrow> key p keys | None \<Rightarrow> None)"

definition no_keys :: api_keys where
  "no_keys = \<lparr>groq = None, openrouter = None, pollinations = None, gemini = None,
     cerebras = None, sambanova = None, cloudflare = None, cloudflareAccount = None,
     huggingface = None, cohere = None, siliconflow = None, routeway = None,
     tavily = None, brave = None, serper = None, puter = None\<rparr>"

section \<open>Strings of values\<close>

text \<open>The decimal digits of a natural number.\<close>

fun digits :: "nat \<Rightarrow> string" where
  "digits n = (if n < 10 then [char_of (48 + n)]
               else digits (n div 10) @ [char_of (48 + n mod 10)])"

text \<open>\<open>xs.join(sep)\<close> on strings.\<close>

fun join :: "string \<Rightarrow> string list \<Rightarrow> string" where
  "join sep [] = []"
| "join sep [x] = x"
| "join sep (x # y # ys) = x @ sep @ join sep (y # ys)"

text \<open>
  The string a template literal or \<open>join\<close> makes of a value. A native function prints
  as \<open>function name() { [native code] }\<close>, the prototype object as \<open>[object Object]\<close>.
\<close>

fun to_string :: "jsval \<Rightarrow> string" where
  "to_string JUndefined = ''undefined''"
| "to_string JNull = ''null''"
| "to_string (JBool b) = (if b then ''true'' else ''false'')"
| "to_string (JNum n) = (if n < 0 then ''-'' @ digits (nat (- n)) else digits (nat n))"
| "to_string (JStr s) = s"
| "to_string (JArr xs) = join '','' (map (\<lambda>x. if nullish x then [] else to_string x) xs)"
| "to_string (JObj kvs) = ''[object Object]''"
| "to_string (JNative n) =
     (if n = ''__proto__'' then ''[object Object]''
      else ''function '' @ (if n = ''constructor'' then ''Object'' else n)
             @ ''() { [native code] }'')"

definition newline :: string where
  "newline = [CHR 0x0A]"

section \<open>Messages, requests and the network\<close>

record message =
  role :: string
  content :: jsval

text \<open>
  The body of an outbound call, one constructor per payload shape; the constant fields of
  each shape are named in the comment and not repeated in the value.
\<close>

datatype payload =
    ChatCompletion "string option" "message list"
      \<comment> \<open>\<open>{model, messages, temperature: 0.7, max_tokens: 4096}\<close>\<close>
  | GenerateContent "message list" "jsval option"
      \<comment> \<open>\<open>{contents, generationConfig}\<close> and \<open>systemInstruction\<close> when set\<close>
  | CohereChat "string option" "message list"
      \<comment> \<open>\<open>{model, messages, temperature: 0.7, max_tokens: 4096}\<close>\<close>
  | CloudflareRun "message list"
      \<comment> \<open>\<open>{messages, max_tokens: 4096}\<close>\<close>
  | Generate "string option" jsval
      \<comment> \<open>\<open>{model, prompt, stream: false}\<close>\<close>
  | DriverCall string "message list" "string option"
      \<comment> \<open>the puter envelope: driver, \<open>args: {messages, model, stream: false}\<close>\<close>
  | DDGQuery string
      \<comment> \<open>GET with \<open>q\<close> the encoded query, \<open>format=json\<close>, \<open>no_html=1\<close>\<close>
  | TavilySearch string string nat bool
      \<comment> \<open>\<open>{api_key, query, max_results}\<close>, and \<open>include_answer: true\<close> when the flag is set\<close>
  | BraveSearch string nat
      \<comment> \<open>GET with params \<open>{q, count}\<close>\<close>
  | SerperSearch string nat
      \<comment> \<open>\<open>{q, num}\<close>\<close>
  | JinaRead string
      \<comment> \<open>GET of the encoded query\<close>

record request =
  url :: string
  headers :: "(string \<times> string) list"
  body :: payload
  timeout :: nat

text \<open>
  The network: what a call answers, given the calls made before it. \<open>Inl\<close> is a rejected
  promise (a timeout, a connection failure, a 4xx or 5xx status), \<open>Inr\<close> the \<open>data\<close> of
  the response (a body that is not JSON arrives as a string). Every function that can
  reach the network takes the calls made so far and returns them extended.
\<close>

type_synonym world = "request list \<Rightarrow> request \<Rightarrow> error + jsval"

definition http :: "world \<Rightarrow> request list \<Rightarrow> request \<Rightarrow> (error + jsval) \<times> request list" where
  "http net tr req = (net tr req, tr @ [req])"

text \<open>A model name inside a template literal: \<open>null\<close> prints as \<open>null\<close>.\<close>

fun model_text :: "string option \<Rightarrow> string" where
  "model_text None = ''null''"
| "model_text (Some m) = m"

section \<open>The request adapters (ai.js)\<close>

text \<open>
  Each adapter returns the reply (a truthy value or \<open>null\<close>) or throws, together with the
  calls made so far. \<open>settle\<close> is the common tail: a rejected call throws, a response
  goes through the adapter's field path.
\<close>

definition settle ::
  "(jsval \<Rightarrow> error + jsval) \<Rightarrow> (error + jsval) \<times> request list
    \<Rightarrow> (error + jsval) \<times> request list" where
  "settle path r = (case fst r of Inl e \<Rightarrow> (Inl e, snd r) | Inr data \<Rightarrow> (path data, snd r))"

text \<open>\<open>data.choices?.[0]?.message?.content || null\<close>\<close>

definition openai_path :: "jsval \<Rightarrow> error + jsval" where
  "openai_path data =
     (case get_prop data ''choices'' of
        Inl e \<Rightarrow> Inl e
      | Inr ch \<Rightarrow> Inr (or_null (opt_prop (opt_prop (opt_first ch) ''message'') ''content'')))"

definition openAIRequest ::
  "world \<Rightarrow> request list \<Rightarrow> string \<Rightarrow> string option \<Rightarrow> string option \<Rightarrow> message list
    \<Rightarrow> (string \<times> string) list \<Rightarrow> (error + jsval) \<times> request list" where
  "openAIRequest net tr ep apiKey model messages extra =
     settle openai_path
       (http net tr
          \<lparr>url = ep,
           headers = ((''Content-Type'', ''application/json'') # extra)
             @ (if truthy_key apiKey then [(''Authorization'', ''Bearer '' @ template_key apiKey)]
                else []),
           body = ChatCompletion model messages,
           timeout = 60000\<rparr>)"

text \<open>
  The loop of \<open>geminiRequest\<close>: a system message overwrites the system instruction, any
  other message is appended as a user or model turn.
\<close>

fun gemini_loop :: "message list \<Rightarrow> message list \<Rightarrow> jsval \<Rightarrow> message list \<times> jsval" where
  "gemini_loop [] contents sys = (contents, sys)"
| "gemini_loop (msg # rest) contents sys =
     (if role msg = ''system'' then gemini_loop rest contents (content msg)
      else gemini_loop rest
             (contents @ [\<lparr>role = (if role msg = ''user'' then ''user'' else ''model''),
                           content = content msg\<rparr>])
             sys)"

text \<open>\<open>data.candidates?.[0]?.content?.parts?.[0]?.text || null\<close>\<close>

definition gemini_path :: "jsval \<Rightarrow> error + jsval" where
  "gemini_path data =
     (case get_prop data ''candidates'' of
        Inl e \<Rightarrow> Inl e
      | Inr c \<Rightarrow>
          Inr (or_null (opt_prop (opt_first (opt_prop (opt_prop (opt_first c) ''content'') ''parts''))
                 ''text'')))"

definition geminiRequest ::
  "api_keys \<Rightarrow> world \<Rightarrow> request list \<Rightarrow> string option \<Rightarrow> message list
    \<Rightarrow> (error + jsval) \<times> request list" where
  "geminiRequest keys net tr model messages =
     (if \<not> truthy_key (gemini keys) then (Inr JNull, tr)
      else
        let (contents, sys) = gemini_loop messages [] JNull in
        settle gemini_path
          (http net tr
             \<lparr>url = ''https://generativelanguage.googleapis.com/v1beta/models/'' @ model_text model
                 @ '':generateContent?key='' @ template_key (gemini keys),
              headers = [(''Content-Type'', ''application/json'')],
              body = GenerateContent contents (if truthy sys then Some sys else None),
              timeout = 60000\<rparr>))"

text \<open>\<open>data.message?.content?.[0]?.text || null\<close>\<close>

definition cohere_path :: "jsval \<Rightarrow> error + jsval" where
  "cohere_path data =
     (case get_prop data ''message'' of
        Inl e \<Rightarrow> Inl e
      | Inr m \<Rightarrow> Inr (or_null (opt_prop (opt_first (opt_prop m ''content'')) ''text'')))"

definition cohere_role :: "string \<Rightarrow> string" where
  "cohere_role r = (if r = ''assistant'' then ''assistant''
                    else if r = ''system'' then ''system'' else ''user'')"

definition cohereRequest ::
  "api_keys \<Rightarrow> world \<Rightarrow> request list \<Rightarrow> string option \<Rightarrow> message list
    \<Rightarrow> (error + jsval) \<times> request list" where
  "cohereRequest keys net tr model messages =
     (if \<not> truthy_key (cohere keys) then (Inr JNull, tr)
      else
        settle cohere_path
          (http net tr
             \<lparr>url = ''https://api.cohere.ai/v2/chat'',
              headers = [(''Authorization'', ''Bearer '' @ template_key (cohere keys)),
                         (''X-Client-Name'', ''wa-bot'')],
              body = CohereChat model
                       (map (\<lambda>m. \<lparr>role = cohere_role (role m), content = content m\<rparr>) messages),
              timeout = 60000\<rparr>))"

text \<open>\<open>data.result?.response || null\<close>\<close>

definition cloudflare_path :: "jsval \<Rightarrow> error + jsval" where
  "cloudflare_path data =
     (case get_prop data ''result'' of
        Inl e \<Rightarrow> Inl e
      | Inr r \<Rightarrow> Inr (or_null (opt_prop r ''response'')))"

definition cloudflareRequest ::
  "api_keys \<Rightarrow> world \<Rightarrow> request list \<Rightarrow> string option \<Rightarrow> message list
    \<Rightarrow> (error + jsval) \<times> request list" where
  "cloudflareRequest keys net tr model messages =
     (if \<not> truthy_key (cloudflare keys) \<or> \<not> truthy_key (cloudflareAccount keys)
      then (Inr JNull, tr)
      else
        settle cloudflare_path
          (http net tr
             \<lparr>url = ''https://api.cloudflare.com/client/v4/accounts/''
                 @ template_key (cloudflareAccount keys) @ ''/ai/run/'' @ model_text model,
              headers = [(''Authorization'', ''Bearer '' @ template_key (cloudflare keys))],
              body = CloudflareRun messages,
              timeout = 60000\<rparr>))"

text \<open>
  \<open>mlvocaRequest\<close>. \<open>prompt\<close> is the content of the last element of the list, \<open>sys\<close> the
  content of the first element whose role is \<open>system\<close> (\<open>Array.prototype.find\<close>), each
  replaced by the empty string when missing or falsy.
\<close>

definition or_empty :: "jsval \<Rightarrow> jsval" where
  "or_empty v = (if truthy v then v else JStr [])"

definition mlvoca_prompt :: "message list \<Rightarrow> jsval" where
  "mlvoca_prompt messages =
     (let prompt = or_empty (if messages = [] then JUndefined else content (last messages));
          sys = or_empty (case find (\<lambda>m. role m = ''system'') messages of
                            None \<Rightarrow> JUndefined
                          | Some m \<Rightarrow> content m)
      in if truthy sys then JStr (to_string sys @ newline @ newline @ to_string prompt)
         else prompt)"

text \<open>\<open>data.response || null\<close>\<close>

definition mlvoca_path :: "jsval \<Rightarrow> error + jsval" where
  "mlvoca_path data =
     (case get_prop data ''response'' of Inl e \<Rightarrow> Inl e | Inr r \<Rightarrow> Inr (or_null r))"

definition mlvocaRequest ::
  "world \<Rightarrow> request list \<Rightarrow> string option \<Rightarrow> message list \<Rightarrow> (error + jsval) \<times> request list" where
  "mlvocaRequest net tr model messages =
     settle mlvoca_path
       (http net tr
          \<lparr>url = ''https://mlvoca.com/api/generate'',
           headers = [],
           body = Generate model (mlvoca_prompt messages),
           timeout = 60000\<rparr>)"

definition starts_with :: "string \<Rightarrow> string \<Rightarrow> bool" where
  "starts_with m p = (take (length p) m = p)"

definition puter_driver :: "string \<Rightarrow> string" where
  "puter_driver m =
     (if starts_with m ''claude'' then ''anthropic''
      else if starts_with m ''google/'' \<or> starts_with m ''gemini'' then ''google-vertex''
      else if starts_with m ''x-ai/'' \<or> starts_with m ''grok'' then ''xai''
      else if starts_with m ''deepseek'' then ''deepseek''
      else if starts_with m ''meta-llama'' \<or> starts_with m ''llama'' then ''together''
      else if starts_with m ''perplexity'' then ''perplexity''
      else ''openai-completion'')"

text \<open>
  \<open>data.result?.message?.content || data.result?.choices?.[0]?.message?.content || null\<close>
\<close>

definition puter_path :: "jsval \<Rightarrow> error + jsval" where
  "puter_path data =
     (case get_prop data ''result'' of
        Inl e \<Rightarrow> Inl e
      | Inr r \<Rightarrow>
          (let a = opt_prop (opt_prop r ''message'') ''content'' in
           if truthy a then Inr a
           else Inr (or_null
                  (opt_prop (opt_prop (opt_first (opt_prop r ''choices'')) ''message'')
                     ''content''))))"

text \<open>A \<open>null\<close> model has no \<open>startsWith\<close>: the driver selection throws before any call.\<close>

definition puterRequest ::
  "api_keys \<Rightarrow> world \<Rightarrow> request list \<Rightarrow> string option \<Rightarrow> message list
    \<Rightarrow> (error + jsval) \<times> request list" where
  "puterRequest keys net tr model messages =
     (if \<not> truthy_key (puter keys) then (Inr JNull, tr)
      else case model of
        None \<Rightarrow> (Inl (TypeError ''Cannot read properties of null (reading startsWith)''), tr)
      | Some m \<Rightarrow>
          settle puter_path
            (http net tr
               \<lparr>url = ''https://api.puter.com/drivers/call'',
                headers = [(''Authorization'', ''Bearer '' @ template_key (puter keys)),
                           (''Origin'', ''https://puter.com'')],
                body = DriverCall (puter_driver m) messages model,
                timeout = 90000\<rparr>))"

section \<open>One attempt on one provider (ai.js)\<close>

text \<open>The body of the \<open>try\<close> block of \<open>tryProvider\<close>: the adapter chosen by provider name.\<close>

definition adapter_call ::
  "api_keys \<Rightarrow> world \<Rightarrow> request list \<Rightarrow> string \<Rightarrow> provider \<Rightarrow> string option \<Rightarrow> message list
    \<Rightarrow> (error + jsval) \<times> request list" where
  "adapter_call keys net tr providerName p model messages =
     (if providerName = ''gemini'' then geminiRequest keys net tr model messages
      else if providerName = ''cohere'' then cohereRequest keys net tr model messages
      else if providerName = ''cloudflare'' then cloudflareRequest keys net tr model messages
      else if providerName = ''mlvoca'' then mlvocaRequest net tr model messages
      else if providerName = ''puter'' then puterRequest keys net tr model messages
      else openAIRequest net tr
             (case endpoint p of Static u \<Rightarrow> u | ByModel f \<Rightarrow> f keys (model_text model))
             (key p keys) model messages (extraHeaders p))"

text \<open>
  \<open>tryProvider(providerName, model, messages)\<close>. The lookup, the call of \<open>provider.key()\<close>
  and the credential test stand before the \<open>try\<close>; the \<open>catch\<close> turns whatever the adapter
  throws into \<open>null\<close>.
\<close>

definition tryProvider ::
  "api_keys \<Rightarrow> world \<Rightarrow> request list \<Rightarrow> string \<Rightarrow> string option \<Rightarrow> message list
    \<Rightarrow> (error + jsval) \<times> request list" where
  "tryProvider keys net tr providerName model messages =
     (case PROVIDERS providerName of
        Absent \<Rightarrow> (Inr JNull, tr)
      | Inherited n \<Rightarrow> (Inl no_key_method, tr)
      | Own p \<Rightarrow>
          if \<not> truthy_key (key p keys) \<and> providerName \<notin> set anonymous_tier
          then (Inr JNull, tr)
          else
            (let r = adapter_call keys net tr providerName p model messages in
             case fst r of
               Inl e \<Rightarrow> (Inr JNull, snd r)
             | Inr v \<Rightarrow> (Inr v, snd r)))"

section \<open>The search module (search.js)\<close>

text \<open>
  Strings are lists of characters; \<open>slice\<close> and \<open>for ... of\<close> go character by character.
  The three markers are the UTF-8 bytes of the pushpin, the bullet and the link sign.
\<close>

definition pin :: string where
  "pin = [CHR 0xF0, CHR 0x9F, CHR 0x93, CHR 0x8C]"

definition bullet :: string where
  "bullet = [CHR 0xE2, CHR 0x80, CHR 0xA2]"

definition link :: string where
  "link = [CHR 0xF0, CHR 0x9F, CHR 0x94, CHR 0x97]"

definition bind_err :: "error + 'a \<Rightarrow> ('a \<Rightarrow> error + 'b) \<Rightarrow> error + 'b" where
  "bind_err x f = (case x of Inl e \<Rightarrow> Inl e | Inr a \<Rightarrow> f a)"

text \<open>\<open>v.slice(0, n)\<close>: arrays and strings have the method, nothing else does.\<close>

fun js_slice :: "jsval \<Rightarrow> nat \<Rightarrow> error + jsval" where
  "js_slice (JArr xs) n = Inr (JArr (take n xs))"
| "js_slice (JStr s) n = Inr (JStr (take n s))"
| "js_slice JUndefined n = Inl (TypeError ''Cannot read properties of undefined (reading slice)'')"
| "js_slice JNull n = Inl (TypeError ''Cannot read properties of null (reading slice)'')"
| "js_slice v n = Inl (TypeError ''slice is not a function'')"

text \<open>The elements a \<open>for ... of\<close> loop visits.\<close>

fun js_iter :: "jsval \<Rightarrow> error + jsval list" where
  "js_iter (JArr xs) = Inr xs"
| "js_iter (JStr s) = Inr (map (\<lambda>c. JStr [c]) s)"
| "js_iter v = Inl (TypeError ''not iterable'')"

text \<open>
  A loop that pushes lines onto \<open>results\<close>: \<open>item\<close> gives the lines one element adds, or
  throws, which ends the loop.
\<close>

fun collect :: "(jsval \<Rightarrow> error + 'a list) \<Rightarrow> jsval list \<Rightarrow> error + 'a list" where
  "collect item [] = Inr []"
| "collect item (x # xs) =
     bind_err (item x) (\<lambda>ls. bind_err (collect item xs) (\<lambda>rest. Inr (ls @ rest)))"

text \<open>\<open>results.length > 0 ? results.join('\n\n') : null\<close>\<close>

definition flatten :: "string list \<Rightarrow> jsval" where
  "flatten results = (if results \<noteq> [] then JStr (join (newline @ newline) results) else JNull)"

text \<open>\<open>v || []\<close>\<close>

definition or_nil :: "jsval \<Rightarrow> jsval" where
  "or_nil v = (if truthy v then v else JArr [])"

definition ddg_request :: "string \<Rightarrow> request" where
  "ddg_request query =
     \<lparr>url = ''https://api.duckduckgo.com/'', headers = [], body = DDGQuery query,
      timeout = 10000\<rparr>"

definition ddg_topic :: "jsval \<Rightarrow> error + string list" where
  "ddg_topic t =
     bind_err (get_prop t ''Text'')
       (\<lambda>x. Inr (if truthy x then [bullet @ '' '' @ to_string x] else []))"

definition ddg_path :: "nat \<Rightarrow> jsval \<Rightarrow> error + jsval" where
  "ddg_path maxResults data =
     bind_err (get_prop data ''Abstract'') (\<lambda>a.
     bind_err (get_prop data ''RelatedTopics'') (\<lambda>rt.
     bind_err (js_slice (or_nil rt) maxResults) (\<lambda>sl.
     bind_err (js_iter sl) (\<lambda>ts.
     bind_err (collect ddg_topic ts) (\<lambda>ls.
       Inr (flatten ((if truthy a then [pin @ '' '' @ to_string a] else []) @ ls)))))))"

definition searchDDG ::
  "world \<Rightarrow> request list \<Rightarrow> string \<Rightarrow> nat \<Rightarrow> (error + jsval) \<times> request list" where
  "searchDDG net tr query maxResults =
     settle (ddg_path maxResults) (http net tr (ddg_request query))"

definition tavily_item :: "jsval \<Rightarrow> error + string list" where
  "tavily_item r =
     bind_err (get_prop r ''title'') (\<lambda>t.
     bind_err (get_prop r ''content'') (\<lambda>c.
     bind_err (js_slice c 200) (\<lambda>sl.
     bind_err (get_prop r ''url'') (\<lambda>u.
       Inr [bullet @ '' *'' @ to_string t @ ''*'' @ newline @ ''  '' @ to_string sl @ ''...''
              @ newline @ ''  '' @ link @ '' '' @ to_string u]))))"

definition tavily_path :: "jsval \<Rightarrow> error + jsval" where
  "tavily_path data =
     bind_err (get_prop data ''answer'') (\<lambda>a.
     bind_err (get_prop data ''results'') (\<lambda>rs.
     bind_err (js_iter (or_nil rs)) (\<lambda>xs.
     bind_err (collect tavily_item xs) (\<lambda>ls.
       Inr (flatten ((if truthy a then [pin @ '' '' @ to_string a] else []) @ ls))))))"

definition searchTavily ::
  "api_keys \<Rightarrow> world \<Rightarrow> request list \<Rightarrow> string \<Rightarrow> nat \<Rightarrow> (error + jsval) \<times> request list" where
  "searchTavily keys net tr query maxResults =
     (if \<not> truthy_key (tavily keys) then searchDDG net tr query maxResults
      else
        settle tavily_path
          (http net tr
             \<lparr>url = ''https://api.tavily.com/search'', headers = [],
              body = TavilySearch (template_key (tavily keys)) query maxResults True,
              timeout = 15000\<rparr>))"

definition brave_item :: "jsval \<Rightarrow> error + string list" where
  "brave_item r =
     bind_err (get_prop r ''title'') (\<lambda>t.
     bind_err (get_prop r ''description'') (\<lambda>d.
     bind_err (get_prop r ''url'') (\<lambda>u.
       Inr [bullet @ '' *'' @ to_string t @ ''*'' @ newline @ ''  '' @ to_string d
              @ newline @ ''  '' @ link @ '' '' @ to_string u])))"

definition brave_path :: "jsval \<Rightarrow> error + jsval" where
  "brave_path data =
     bind_err (get_prop data ''web'') (\<lambda>w.
     bind_err (js_iter (or_nil (opt_prop w ''results''))) (\<lambda>xs.
     bind_err (collect brave_item xs) (\<lambda>ls. Inr (flatten ls))))"

definition searchBrave ::
  "api_keys \<Rightarrow> world \<Rightarrow> request list \<Rightarrow> string \<Rightarrow> nat \<Rightarrow> (error + jsval) \<times> request list" where
  "searchBrave keys net tr query maxResults =
     (if \<not> truthy_key (brave keys) then searchDDG net tr query maxResults
      else
        settle brave_path
          (http net tr
             \<lparr>url = ''https://api.search.brave.com/res/v1/web/search'',
              headers = [(''X-Subscription-Token'', template_key (brave keys))],
              body = BraveSearch query maxResults,
              timeout = 15000\<rparr>))"

definition serper_item :: "jsval \<Rightarrow> error + string list" where
  "serper_item r =
     bind_err (get_prop r ''title'') (\<lambda>t.
     bind_err (get_prop r ''snippet'') (\<lambda>sn.
     bind_err (get_prop r ''link'') (\<lambda>u.
       Inr [bullet @ '' *'' @ to_string t @ ''*'' @ newline @ ''  '' @ to_string sn
              @ newline @ ''  '' @ link @ '' '' @ to_string u])))"

text \<open>\<open>data.answerBox.answer || data.answerBox.snippet\<close>, read only when the box is truthy.\<close>

definition serper_box :: "jsval \<Rightarrow> string list" where
  "serper_box b =
     (if truthy b
      then [pin @ '' '' @ to_string (if truthy (own_prop b ''answer'') then own_prop b ''answer''
                                      else own_prop b ''snippet'')]
      else [])"

definition serper_path :: "jsval \<Rightarrow> error + jsval" where
  "serper_path data =
     bind_err (get_prop data ''answerBox'') (\<lambda>b.
     bind_err (get_prop data ''organic'') (\<lambda>org.
     bind_err (js_iter (or_nil org)) (\<lambda>xs.
     bind_err (collect serper_item xs) (\<lambda>ls. Inr (flatten (serper_box b @ ls))))))"

definition searchSerper ::
  "api_keys \<Rightarrow> world \<Rightarrow> request list \<Rightarrow> string \<Rightarrow> nat \<Rightarrow> (error + jsval) \<times> request list" where
  "searchSerper keys net tr query maxResults =
     (if \<not> truthy_key (serper keys) then searchDDG net tr query maxResults
      else
        settle serper_path
          (http net tr
             \<lparr>url = ''https://google.serper.dev/search'',
              headers = [(''X-API-KEY'', template_key (serper keys))],
              body = SerperSearch query maxResults,
              timeout = 15000\<rparr>))"

text \<open>\<open>data?.slice(0, 2000) || null\<close>\<close>

definition jina_path :: "jsval \<Rightarrow> error + jsval" where
  "jina_path data =
     (if nullish data then Inr JNull
      else bind_err (js_slice data 2000) (\<lambda>sl. Inr (or_null sl)))"

definition searchJina :: "world \<Rightarrow> request list \<Rightarrow> string \<Rightarrow> (error + jsval) \<times> request list" where
  "searchJina net tr query =
     settle jina_path
       (http net tr
          \<lparr>url = ''https://s.jina.ai/'', headers = [], body = JinaRead query, timeout = 30000\<rparr>)"

text \<open>The dispatch inside the \<open>try\<close> block of \<open>search\<close>.\<close>

definition search_engine ::
  "api_keys \<Rightarrow> world \<Rightarrow> request list \<Rightarrow> string \<Rightarrow> string \<Rightarrow> nat
    \<Rightarrow> (error + jsval) \<times> request list" where
  "search_engine keys net tr query engine maxResults =
     (if engine = ''duckduckgo'' then searchDDG net tr query maxResults
      else if engine = ''tavily'' then searchTavily keys net tr query maxResults
      else if engine = ''brave'' then searchBrave keys net tr query maxResults
      else if engine = ''serper'' then searchSerper keys net tr query maxResults
      else if engine = ''jina'' then searchJina net tr query
      else searchDDG net tr query maxResults)"

text \<open>
  \<open>search(query, engine = 'duckduckgo', maxResults = 5)\<close>: whatever the backend throws
  becomes \<open>null\<close>.
\<close>

definition search ::
  "api_keys \<Rightarrow> world \<Rightarrow> request list \<Rightarrow> string \<Rightarrow> string \<Rightarrow> nat \<Rightarrow> jsval \<times> request list" where
  "search keys net tr query engine maxResults =
     (let r = search_engine keys net tr query engine maxResults in
      case fst r of Inl e \<Rightarrow> (JNull, snd r) | Inr v \<Rightarrow> (v, snd r))"

section \<open>Prompts and fallback chains (config.js)\<close>

definition normal_prompt :: string where
  "normal_prompt = ''Kamu adalah asisten AI bernama Vee. Jawab dengan bahasa yang sama dengan pengguna. Berikan jawaban yang helpful, akurat, dan friendly.''"

definition reasoning_prompt :: string where
  "reasoning_prompt = ''Kamu adalah asisten AI bernama Vee dengan kemampuan reasoning tinggi. Gunakan pendekatan step-by-step untuk masalah kompleks. Jawab dengan bahasa yang sama dengan pengguna.''"

definition search_prompt :: string where
  "search_prompt = ''Kamu adalah asisten AI bernama Vee dengan akses informasi terkini. Gunakan hasil pencarian untuk menjawab. Sebutkan sumber jika relevan. Jawab dengan bahasa yang sama dengan pengguna.''"

definition SYSTEM_PROMPTS :: "(string \<times> string) list" where
  "SYSTEM_PROMPTS =
     [(''normal'', normal_prompt), (''reasoning'', reasoning_prompt), (''search'', search_prompt)]"

record candidate =
  provider :: string
  model :: "string option"

definition cand :: "string \<Rightarrow> string \<Rightarrow> candidate" where
  "cand p m = \<lparr>provider = p, model = Some m\<rparr>"

definition normal_chain :: "candidate list" where
  "normal_chain =
     [cand ''groq'' ''llama-3.3-70b-versatile'',
      cand ''groq'' ''llama-3.1-8b-instant'',
      cand ''cerebras'' ''llama-3.3-70b'',
      cand ''sambanova'' ''Meta-Llama-3.3-70B-Instruct'',
      cand ''openrouter'' ''openrouter/free'',
      cand ''openrouter'' ''meta-llama/llama-3.3-70b-instruct:free'',
      cand ''pollinations'' ''openai'',
      cand ''pollinations'' ''gemini'',
      cand ''cloudflare'' ''@cf/meta/llama-3.1-8b-instruct'',
      cand ''puter'' ''gpt-4o-mini'',
      cand ''mlvoca'' ''tinyllama'']"

definition reasoning_chain :: "candidate list" where
  "reasoning_chain =
     [cand ''groq'' ''deepseek-r1-distill-llama-70b'',
      cand ''groq'' ''qwen-qwq-32b'',
      cand ''groq'' ''openai/gpt-oss-120b'',
      cand ''cerebras'' ''gpt-oss-120b'',
      cand ''sambanova'' ''DeepSeek-R1'',
      cand ''openrouter'' ''deepseek/deepseek-r1-zero:free'',
      cand ''pollinations'' ''perplexity-reasoning'',
      cand ''routeway'' ''deepseek-r1:free'']"

definition search_chain :: "candidate list" where
  "search_chain =
     [\<lparr>provider = ''duckduckgo'', model = None\<rparr>,
      \<lparr>provider = ''tavily'', model = None\<rparr>,
      \<lparr>provider = ''brave'', model = None\<rparr>,
      \<lparr>provider = ''serper'', model = None\<rparr>]"

definition FALLBACK_CHAINS :: "(string \<times> candidate list) list" where
  "FALLBACK_CHAINS =
     [(''normal'', normal_chain), (''reasoning'', reasoning_chain), (''search'', search_chain)]"

section \<open>The orchestrator (ai.js, askAI)\<close>

text \<open>\<open>SYSTEM_PROMPTS[mode] || SYSTEM_PROMPTS.normal\<close>\<close>

definition system_prompt :: "string \<Rightarrow> jsval" where
  "system_prompt mode =
     (let v = (case lookup SYSTEM_PROMPTS mode of
                 Own s \<Rightarrow> JStr s
               | Inherited n \<Rightarrow> JNative n
               | Absent \<Rightarrow> JUndefined)
      in if truthy v then v else JStr normal_prompt)"

text \<open>
  \<open>FALLBACK_CHAINS[mode] || FALLBACK_CHAINS.normal\<close>, as the \<open>for ... of\<close> loop receives it:
  an inherited member is truthy, so it is the value of \<open>chain\<close>, and the loop throws on
  it since it is not iterable.
\<close>

definition selected_chain :: "string \<Rightarrow> error + candidate list" where
  "selected_chain mode =
     (case lookup FALLBACK_CHAINS mode of
        Own chain \<Rightarrow> Inr chain
      | Inherited n \<Rightarrow> Inl (TypeError ''chain is not iterable'')
      | Absent \<Rightarrow> Inr normal_chain)"

text \<open>\<open>chatHistory.slice(-8)\<close>\<close>

definition last_n :: "nat \<Rightarrow> 'a list \<Rightarrow> 'a list" where
  "last_n n xs = drop (length xs - n) xs"

definition search_context :: "jsval \<Rightarrow> message" where
  "search_context found =
     \<lparr>role = ''system'', content = JStr (''Hasil pencarian:'' @ newline @ to_string found)\<rparr>"

text \<open>
  The first part of \<open>askAI\<close>: the message list, in the order the statements build it, and
  the calls the search made.
\<close>

definition compose ::
  "api_keys \<Rightarrow> world \<Rightarrow> request list \<Rightarrow> string \<Rightarrow> bool \<Rightarrow> message list \<Rightarrow> string
    \<Rightarrow> message list \<times> request list" where
  "compose keys net tr userMessage useSearch chatHistory mode =
     (let messages = [\<lparr>role = ''system'', content = system_prompt mode\<rparr>];
          messages = (if length chatHistory > 0 then messages @ last_n 8 chatHistory
                      else messages);
          found = (if useSearch \<or> mode = ''search''
                   then search keys net tr userMessage ''duckduckgo'' 5
                   else (JNull, tr));
          messages = (if truthy (fst found) then messages @ [search_context (fst found)]
                      else messages)
      in (messages @ [\<lparr>role = ''user'', content = JStr userMessage\<rparr>], snd found))"

text \<open>
  The override probe: attempted when a provider and a model are given and the provider
  is available. \<open>Some v\<close> is a reply that ends \<open>askAI\<close>, \<open>None\<close> lets it go on to the chain.
\<close>

definition override_probe ::
  "api_keys \<Rightarrow> world \<Rightarrow> request list \<Rightarrow> string option \<Rightarrow> string option \<Rightarrow> message list
    \<Rightarrow> (error + jsval option) \<times> request list" where
  "override_probe keys net tr selectedProvider selectedModel messages =
     (case selectedProvider of
        None \<Rightarrow> (Inr None, tr)
      | Some p \<Rightarrow>
          if p = [] \<or> \<not> truthy_key selectedModel then (Inr None, tr)
          else
            (case isProviderAvailable keys p of
               Inl e \<Rightarrow> (Inl e, tr)
             | Inr False \<Rightarrow> (Inr None, tr)
             | Inr True \<Rightarrow>
                 (let r = tryProvider keys net tr p selectedModel messages in
                  case fst r of
                    Inl e \<Rightarrow> (Inl e, snd r)
                  | Inr v \<Rightarrow> (Inr (if truthy v then Some v else None), snd r))))"

text \<open>
  The \<open>for\<close> loop over the chain: an unavailable candidate is skipped, an available one is
  attempted once, and the first truthy reply is returned.
\<close>

fun chain_loop ::
  "api_keys \<Rightarrow> world \<Rightarrow> request list \<Rightarrow> candidate list \<Rightarrow> message list
    \<Rightarrow> (error + jsval option) \<times> request list" where
  "chain_loop keys net tr [] messages = (Inr None, tr)"
| "chain_loop keys net tr (c # cs) messages =
     (case isProviderAvailable keys (provider c) of
        Inl e \<Rightarrow> (Inl e, tr)
      | Inr False \<Rightarrow> chain_loop keys net tr cs messages
      | Inr True \<Rightarrow>
          (let r = tryProvider keys net tr (provider c) (model c) messages in
           case fst r of
             Inl e \<Rightarrow> (Inl e, snd r)
           | Inr v \<Rightarrow>
               if truthy v then (Inr (Some v), snd r)
               else chain_loop keys net (snd r) cs messages))"

definition apology :: string where
  "apology = ''Maaf, semua provider tidak tersedia saat ini.''"

text \<open>The chain phase of \<open>askAI\<close>: the loop over the chain of the mode, then the apology.\<close>

definition chain_phase ::
  "api_keys \<Rightarrow> world \<Rightarrow> request list \<Rightarrow> string \<Rightarrow> message list
    \<Rightarrow> (error + jsval) \<times> request list" where
  "chain_phase keys net tr mode messages =
     (case selected_chain mode of
        Inl e \<Rightarrow> (Inl e, tr)
      | Inr chain \<Rightarrow>
          (let r = chain_loop keys net tr chain messages in
           case fst r of
             Inl e \<Rightarrow> (Inl e, snd r)
           | Inr (Some v) \<Rightarrow> (Inr v, snd r)
           | Inr None \<Rightarrow> (Inr (JStr apology), snd r)))"

text \<open>
  \<open>askAI(userMessage, useSearch, selectedProvider, selectedModel, chatHistory, mode)\<close>
\<close>

definition askAI ::
  "api_keys \<Rightarrow> world \<Rightarrow> request list \<Rightarrow> string \<Rightarrow> bool \<Rightarrow> string option \<Rightarrow> string option
    \<Rightarrow> message list \<Rightarrow> string \<Rightarrow> (error + jsval) \<times> request list" where
  "askAI keys net tr userMessage useSearch selectedProvider selectedModel chatHistory mode =
     (let cm = compose keys net tr userMessage useSearch chatHistory mode;
          pr = override_probe keys net (snd cm) selectedProvider selectedModel (fst cm)
      in case fst pr of
           Inl e \<Rightarrow> (Inl e, snd pr)
         | Inr (Some v) \<Rightarrow> (Inr v, snd pr)
         | Inr None \<Rightarrow> chain_phase keys net (snd pr) mode (fst cm))"

section \<open>The search of the bridge module (unnamed part 000)\<close>

text \<open>
  The single-file bridge has its own \<open>search\<close>, named \<open>bridge_search\<close> here, and its own
  Tavily and Serper backends; each backend catches what it throws and returns \<open>null\<close>.
  It reads the secrets from the same environment variables as \<open>API_KEYS\<close>.
\<close>





















section \<open>The persistent store (database.js)\<close>

text \<open>
  The two tables. A row of \<open>conversations\<close> has the columns \<open>id\<close>, \<open>user_id\<close>, \<open>role\<close>,
  \<open>content\<close> and \<open>timestamp\<close>; \<open>user_settings\<close> has \<open>user_id\<close> as its primary key, so it
  is a map from user to the other columns. \<open>last_id\<close> is the AUTOINCREMENT counter.
\<close>

record conversation =
  row_id :: nat
  user_id :: string
  entry_role :: string
  entry_content :: string
  timestamp :: int

record user_setting =
  setting_provider :: "string option"
  setting_model :: "string option"
  setting_mode :: "string option"
  updated_at :: int

record database =
  conversations :: "conversation list"
  user_settings :: "string \<rightharpoonup> user_setting"
  last_id :: nat

text \<open>
  Every operation wraps one statement in a promise: \<open>err\<close> is what the driver passes to
  the callback, \<open>Some e\<close> rejects the promise and leaves the tables as they were, \<open>None\<close>
  resolves it. \<open>Inl\<close> is a rejected promise.
\<close>

text \<open>\<open>LIMIT n\<close>: a negative bound is no bound.\<close>

definition sql_limit :: "int \<Rightarrow> 'a list \<Rightarrow> 'a list" where
  "sql_limit n xs = (if n < 0 then xs else take (nat n) xs)"

text \<open>
  \<open>getHistory\<close>: the rows of the user, newest first, cut at the limit, then reversed. SQL
  leaves the order of rows with equal timestamps open; the sort here keeps them in
  insertion order.
\<close>

definition getHistory ::
  "string option \<Rightarrow> database \<Rightarrow> string \<Rightarrow> int \<Rightarrow> string + message list" where
  "getHistory err db userId limit =
     (case err of
        Some e \<Rightarrow> Inl e
      | None \<Rightarrow>
          Inr (rev (map (\<lambda>r. \<lparr>role = entry_role r, content = JStr (entry_content r)\<rparr>)
                     (sql_limit limit
                        (sort_key (\<lambda>r. - timestamp r)
                           (filter (\<lambda>r. user_id r = userId) (conversations db)))))))"

definition addMessage ::
  "string option \<Rightarrow> int \<Rightarrow> database \<Rightarrow> string \<Rightarrow> string \<Rightarrow> string \<Rightarrow> (string + unit) \<times> database" where
  "addMessage err now db userId r c =
     (case err of
        Some e \<Rightarrow> (Inl e, db)
      | None \<Rightarrow>
          (Inr (),
           db\<lparr>conversations := conversations db
                  @ [\<lparr>row_id = Suc (last_id db), user_id = userId, entry_role = r,
                       entry_content = c, timestamp = now\<rparr>],
              last_id := Suc (last_id db)\<rparr>))"

text \<open>\<open>DELETE FROM conversations WHERE user_id = ?\<close>\<close>

definition clearHistory ::
  "string option \<Rightarrow> database \<Rightarrow> string \<Rightarrow> (string + unit) \<times> database" where
  "clearHistory err db userId =
     (case err of
        Some e \<Rightarrow> (Inl e, db)
      | None \<Rightarrow>
          (Inr (), db\<lparr>conversations := filter (\<lambda>r. user_id r \<noteq> userId) (conversations db)\<rparr>))"

text \<open>\<open>getSettings\<close>: the provider, model and mode of the user, or \<open>null\<close>.\<close>

definition getSettings ::
  "string option \<Rightarrow> database \<Rightarrow> string
    \<Rightarrow> string + (string option \<times> string option \<times> string option) option" where
  "getSettings err db userId =
     (case err of
        Some e \<Rightarrow> Inl e
      | None \<Rightarrow>
          Inr (map_option (\<lambda>s. (setting_provider s, setting_model s, setting_mode s))
                 (user_settings db userId)))"

definition saveSettings ::
  "string option \<Rightarrow> int \<Rightarrow> database \<Rightarrow> string \<Rightarrow> string option \<Rightarrow> string option \<Rightarrow> string option
    \<Rightarrow> (string + unit) \<times> database" where
  "saveSettings err now db userId p m md =
     (case err of
        Some e \<Rightarrow> (Inl e, db)
      | None \<Rightarrow>
          (Inr (),
           db\<lparr>user_settings := (user_settings db)
                  (userId \<mapsto> \<lparr>setting_provider = p, setting_model = m, setting_mode = md,
                                updated_at = now\<rparr>)\<rparr>))"

text \<open>\<open>getStats\<close>: \<open>COUNT(*)\<close> of the rows of the user (\<open>row.total || 0\<close>).\<close>

definition getStats :: "string option \<Rightarrow> database \<Rightarrow> string \<Rightarrow> string + nat" where
  "getStats err db userId =
     (case err of
        Some e \<Rightarrow> Inl e
      | None \<Rightarrow> Inr (length (filter (\<lambda>r. user_id r = userId) (conversations db))))"

text \<open>A sample store: two users with one message each, and settings for both.\<close>

definition sample_db :: database where
  "sample_db =
     \<lparr>conversations =
        [\<lparr>row_id = 1, user_id = ''alice'', entry_role = ''user'', entry_content = ''hi'',
           timestamp = 100\<rparr>,
         \<lparr>row_id = 2, user_id = ''bob'', entry_role = ''user'', entry_content = ''yo'',
           timestamp = 101\<rparr>],
      user_settings =
        [''alice'' \<mapsto> \<lparr>setting_provider = Some ''groq'', setting_model = Some ''qwen-qwq-32b'',
                         setting_mode = Some ''reasoning'', updated_at = 90\<rparr>,
         ''bob'' \<mapsto> \<lparr>setting_provider = Some ''mlvoca'', setting_model = Some ''tinyllama'',
                       setting_mode = Some ''normal'', updated_at = 91\<rparr>],
      last_id = 2\<rparr>"

section \<open>Auxiliary notions for the statements\<close>

text \<open>A message with text content.\<close>

definition msg :: "string \<Rightarrow> string \<Rightarrow> message" where
  "msg r c = \<lparr>role = r, content = JStr c\<rparr>"

text \<open>At most one call was added to the calls made so far.\<close>

definition one_more :: "request list \<Rightarrow> request list \<Rightarrow> bool" where
  "one_more tr tr' =
     (tr' = tr \<or> (length tr' = Suc (length tr) \<and> take (length tr) tr' = tr))"

text \<open>
  The candidates of a list all fail, one after the other, starting from the calls \<open>tr\<close>:
  each is skipped as unavailable, or is available and its attempt gives a reply that is
  not usable (\<open>null\<close> or another falsy value). The result is the calls made by then;
  \<open>None\<close> when some candidate does not fail.
\<close>

fun all_fail ::
  "api_keys \<Rightarrow> world \<Rightarrow> request list \<Rightarrow> candidate list \<Rightarrow> message list
    \<Rightarrow> request list option" where
  "all_fail keys net tr [] messages = Some tr"
| "all_fail keys net tr (c # cs) messages =
     (case isProviderAvailable keys (provider c) of
        Inl e \<Rightarrow> None
      | Inr False \<Rightarrow> all_fail keys net tr cs messages
      | Inr True \<Rightarrow>
          (case fst (tryProvider keys net tr (provider c) (model c) messages) of
             Inl e \<Rightarrow> None
           | Inr v \<Rightarrow>
               if truthy v then None
               else all_fail keys net
                      (snd (tryProvider keys net tr (provider c) (model c) messages))
                      cs messages))"

text \<open>
  The prompt as the specification words it: the last system message and the last user
  message, joined the way the adapter joins its two parts.
\<close>

definition claimed_prompt :: "message list \<Rightarrow> jsval" where
  "claimed_prompt messages =
     JStr (to_string (content (last (filter (\<lambda>m. role m = ''system'') messages)))
           @ newline @ newline
           @ to_string (content (last (filter (\<lambda>m. role m = ''user'') messages))))"

text \<open>
  The layout of the message list as the specification words it: the search context right
  after the base system prompt, before the history window.
\<close>

definition claimed_layout ::
  "message \<Rightarrow> message list \<Rightarrow> message list \<Rightarrow> message \<Rightarrow> message list" where
  "claimed_layout base ctx window user = base # ctx @ window @ [user]"

text \<open>Sample networks: every call fails; every call answers the same body.\<close>

definition failing_net :: world where
  "failing_net = (\<lambda>tr req. Inl (AxiosError ''timeout of 60000ms exceeded''))"

definition constant_net :: "jsval \<Rightarrow> world" where
  "constant_net data = (\<lambda>tr req. Inr data)"

text \<open>A chat-completion body whose first choice carries the text.\<close>

definition completion :: "string \<Rightarrow> jsval" where
  "completion s = JObj [(''choices'', JArr [JObj [(''message'', JObj [(''content'', JStr s)])]])]"

text \<open>The first call fails, every later one answers with the text.\<close>

definition second_try_net :: "string \<Rightarrow> world" where
  "second_try_net s =
     (\<lambda>tr req. if tr = [] then Inl (AxiosError ''Request failed with status code 429'')
                else Inr (completion s))"


section \<open>Availability of a provider\<close>

lemma registered_iff: "registered name = (map_of providers_table name \<noteq> None)"
  by (simp add: registered_def map_of_eq_None_iff)

lemma anonymous_registered: "name \<in> set anonymous_tier \<Longrightarrow> registered name"
  by (auto simp: anonymous_tier_def registered_def providers_table_def)

text \<open>
  C4. For every provider name, \<open>isProviderAvailable\<close> returns true exactly when the name
  is registered in the catalog and the provider is one of the two anonymous-tier
  providers or its credential lookup gives a non-empty value. A registered provider
  outside the anonymous tier whose secret is empty or missing gives false, and an
  unregistered name never gives true.
\<close>

theorem isProviderAvailable_iff:
  "(isProviderAvailable keys name = Inr True \<longleftrightarrow>
      registered name \<and>
      (name = ''pollinations'' \<or> name = ''mlvoca'' \<or> truthy_key (credential keys name)))
   \<and> (registered name \<and> name \<noteq> ''pollinations'' \<and> name \<noteq> ''mlvoca''
        \<and> \<not> truthy_key (credential keys name)
        \<longrightarrow> isProviderAvailable keys name = Inr False)
   \<and> (\<not> registered name \<longrightarrow> isProviderAvailable keys name \<noteq> Inr True)"
proof (cases "map_of providers_table name")
  case None
  then have nr: "\<not> registered name" by (simp add: registered_iff)
  then have "name \<notin> set anonymous_tier" using anonymous_registered by blast
  with None nr show ?thesis
    by (simp add: isProviderAvailable_def PROVIDERS_def lookup_def no_key_method_def)
next
  case (Some p)
  then have "registered name" by (simp add: registered_iff)
  with Some show ?thesis
    by (auto simp: isProviderAvailable_def PROVIDERS_def lookup_def credential_def
        anonymous_tier_def)
qed

theorem isProviderAvailable_iff_witness:
  "isProviderAvailable (no_keys\<lparr>groq := Some ''gsk''\<rparr>) ''groq'' = Inr True
   \<and> isProviderAvailable no_keys ''groq'' = Inr False
   \<and> isProviderAvailable (no_keys\<lparr>groq := Some []\<rparr>) ''groq'' = Inr False
   \<and> isProviderAvailable no_keys ''mlvoca'' = Inr True
   \<and> isProviderAvailable no_keys ''duckduckgo'' \<noteq> Inr True"
proof -
  have r: "registered ''groq''" "registered ''mlvoca''" "\<not> registered ''duckduckgo''"
    by (simp_all add: registered_def providers_table_def)
  have c: "credential (no_keys\<lparr>groq := Some ''gsk''\<rparr>) ''groq'' = Some ''gsk''"
    "credential no_keys ''groq'' = None"
    "credential (no_keys\<lparr>groq := Some []\<rparr>) ''groq'' = Some []"
    by (simp_all add: credential_def providers_table_def plain_def no_keys_def)
  show ?thesis
    using r c
      isProviderAvailable_iff [of "no_keys\<lparr>groq := Some ''gsk''\<rparr>" "''groq''"]
      isProviderAvailable_iff [of no_keys "''groq''"]
      isProviderAvailable_iff [of "no_keys\<lparr>groq := Some []\<rparr>" "''groq''"]
      isProviderAvailable_iff [of no_keys "''mlvoca''"]
      isProviderAvailable_iff [of no_keys "''duckduckgo''"]
    by simp
qed

section \<open>One attempt never lets an adapter failure out\<close>

lemma settle_http_calls: "one_more tr (snd (settle path (http net tr req)))"
  by (simp add: settle_def http_def one_more_def split: sum.splits)

lemma one_more_refl: "one_more tr tr"
  by (simp add: one_more_def)

lemma adapter_call_calls: "one_more tr (snd (adapter_call keys net tr name p m msgs))"
  by (simp add: adapter_call_def geminiRequest_def cohereRequest_def cloudflareRequest_def
      mlvocaRequest_def puterRequest_def openAIRequest_def settle_http_calls one_more_refl
      split: prod.splits option.splits)

lemma tryProvider_calls: "one_more tr (snd (tryProvider keys net tr p m msgs))"
  by (simp add: tryProvider_def Let_def adapter_call_calls one_more_refl
      split: member.splits sum.splits)

lemma tryProvider_length:
  "length (snd (tryProvider keys net tr p m msgs)) \<le> Suc (length tr)"
  using tryProvider_calls [of tr keys net p m msgs] by (auto simp: one_more_def)

text \<open>
  For every provider name that is not a member inherited from \<open>Object.prototype\<close>,
  \<open>tryProvider\<close> returns a value, whatever the network answers and whatever the adapter
  throws.
\<close>

lemma tryProvider_returns:
  assumes "providerName \<notin> set object_prototype_names"
  shows "\<exists>v. fst (tryProvider keys net tr providerName m msgs) = Inr v"
  using assms
  by (simp add: tryProvider_def PROVIDERS_def lookup_def Let_def split: option.splits sum.splits)

text \<open>A rejected call, and a body without the reply path, both give \<open>null\<close>.\<close>

lemma tryProvider_rejected_call:
  "fst (tryProvider no_keys failing_net tr ''pollinations'' (Some ''openai'') msgs) = Inr JNull"
  by (simp add: tryProvider_def PROVIDERS_def lookup_def providers_table_def plain_def
      anonymous_tier_def adapter_call_def openAIRequest_def settle_def http_def failing_net_def
      Let_def)

lemma tryProvider_path_absent:
  "fst (tryProvider no_keys (constant_net (JObj [])) tr ''pollinations'' (Some ''openai'') msgs)
     = Inr JNull"
  by (simp add: tryProvider_def PROVIDERS_def lookup_def providers_table_def plain_def
      anonymous_tier_def adapter_call_def openAIRequest_def settle_def http_def constant_net_def
      openai_path_def get_prop_def opt_prop_def or_null_def Let_def)

text \<open>
  C7. \<open>tryProvider\<close> is claimed never to throw, for any input. With the provider name
  \<open>constructor\<close> the lookup in \<open>PROVIDERS\<close> finds the inherited \<open>Object\<close> function, the
  test \<open>!provider\<close> passes, and \<open>provider.key()\<close>, which stands before the \<open>try\<close>, throws
  a TypeError: the attempt ends in an exception, with no call made.
\<close>

theorem tryProvider_inherited_name_throws:
  "tryProvider keys net tr ''constructor'' m msgs = (Inl no_key_method, tr)"
  by (simp add: tryProvider_def PROVIDERS_def lookup_def providers_table_def
      object_prototype_names_def)

section \<open>The prompt of the raw-generate adapter\<close>

lemma find_first:
  "\<forall>m\<in>set pre. \<not> P m \<Longrightarrow> P s \<Longrightarrow> find P (pre @ s # rest) = Some s"
  by (induction pre) auto

lemma find_none: "\<forall>m\<in>set xs. \<not> P m \<Longrightarrow> find P xs = None"
  by (induction xs) auto

text \<open>
  C8, as the claim states it: the prompt is the last system message followed by the last
  user message. On the list a search turn builds (base prompt, search context, user
  message) the adapter sends the base prompt, the first system message, and drops the
  search context.
\<close>

theorem mlvoca_prompt_counterexample:
  "mlvoca_prompt [msg ''system'' ''base'', msg ''system'' ''found'', msg ''user'' ''hello'']
     = JStr (''base'' @ newline @ newline @ ''hello'')
   \<and> claimed_prompt [msg ''system'' ''base'', msg ''system'' ''found'', msg ''user'' ''hello'']
     = JStr (''found'' @ newline @ newline @ ''hello'')
   \<and> mlvoca_prompt [msg ''system'' ''base'', msg ''system'' ''found'', msg ''user'' ''hello'']
     \<noteq> claimed_prompt [msg ''system'' ''base'', msg ''system'' ''found'', msg ''user'' ''hello'']"
  by (simp add: mlvoca_prompt_def claimed_prompt_def msg_def or_empty_def Let_def newline_def)

text \<open>
  C8, amended. The raw-generate adapter makes one call whose prompt is built from two
  messages only. When the list has a system message, the prompt is the content of the
  first one (if it is not empty), a blank line, and the content of the last message of the
  list, whatever its role (an empty string when that content is falsy). When the list has
  no system message, the prompt is the content of the last message. Every other message
  is discarded.
\<close>

theorem mlvoca_prompt_shape:
  "(messages = pre @ s # rest \<and> (\<forall>m\<in>set pre. role m \<noteq> ''system'') \<and> role s = ''system''
      \<and> truthy (content s)
     \<longrightarrow> mlvoca_prompt messages =
          JStr (to_string (content s) @ newline @ newline
                  @ to_string (or_empty (content (last messages)))))
   \<and> (messages \<noteq> [] \<and> (\<forall>m\<in>set messages. role m \<noteq> ''system'')
     \<longrightarrow> mlvoca_prompt messages = or_empty (content (last messages)))
   \<and> snd (mlvocaRequest net tr m messages) =
       tr @ [\<lparr>url = ''https://mlvoca.com/api/generate'', headers = [],
               body = Generate m (mlvoca_prompt messages), timeout = 60000\<rparr>]"
proof (intro conjI impI)
  assume a: "messages = pre @ s # rest \<and> (\<forall>m\<in>set pre. role m \<noteq> ''system'')
      \<and> role s = ''system'' \<and> truthy (content s)"
  then have "find (\<lambda>m. role m = ''system'') messages = Some s"
    by (simp add: find_first)
  moreover have "messages \<noteq> []" using a by simp
  ultimately show "mlvoca_prompt messages =
          JStr (to_string (content s) @ newline @ newline
                  @ to_string (or_empty (content (last messages))))"
    using a by (simp add: mlvoca_prompt_def Let_def or_empty_def)
next
  assume a: "messages \<noteq> [] \<and> (\<forall>m\<in>set messages. role m \<noteq> ''system'')"
  then have "find (\<lambda>m. role m = ''system'') messages = None"
    by (simp add: find_none)
  then show "mlvoca_prompt messages = or_empty (content (last messages))"
    using a by (simp add: mlvoca_prompt_def Let_def or_empty_def)
next
  show "snd (mlvocaRequest net tr m messages) =
       tr @ [\<lparr>url = ''https://mlvoca.com/api/generate'', headers = [],
               body = Generate m (mlvoca_prompt messages), timeout = 60000\<rparr>]"
    by (simp add: mlvocaRequest_def settle_def http_def split: sum.splits)
qed

theorem mlvoca_prompt_shape_witness:
  "mlvoca_prompt [msg ''user'' ''old'', msg ''system'' ''base'', msg ''system'' ''found'',
                  msg ''assistant'' ''reply'']
     = JStr (''base'' @ newline @ newline @ ''reply'')
   \<and> mlvoca_prompt [msg ''user'' ''old'', msg ''user'' ''hello''] = JStr ''hello''"
proof -
  let ?ms = "[msg ''user'' ''old'', msg ''system'' ''base'', msg ''system'' ''found'',
              msg ''assistant'' ''reply'']"
  let ?us = "[msg ''user'' ''old'', msg ''user'' ''hello'']"
  have a: "?ms = [msg ''user'' ''old''] @ msg ''system'' ''base''
                   # [msg ''system'' ''found'', msg ''assistant'' ''reply'']
           \<and> (\<forall>m\<in>set [msg ''user'' ''old'']. role m \<noteq> ''system'')
           \<and> role (msg ''system'' ''base'') = ''system''
           \<and> truthy (content (msg ''system'' ''base''))"
    by (simp add: msg_def)
  have b: "?us \<noteq> [] \<and> (\<forall>m\<in>set ?us. role m \<noteq> ''system'')"
    by (simp add: msg_def)
  from a b
    mlvoca_prompt_shape [of ?ms "[msg ''user'' ''old'']" "msg ''system'' ''base''"
      "[msg ''system'' ''found'', msg ''assistant'' ''reply'']" failing_net "[]" None]
    mlvoca_prompt_shape [of ?us "[]" "msg ''user'' ''old''" "[]" failing_net "[]" None]
  show ?thesis
    by (simp add: msg_def or_empty_def)
qed

section \<open>The chain and the prompt of a mode\<close>

text \<open>
  For a mode that is none of the three configured ones and not a member inherited from
  \<open>Object.prototype\<close>, the chain and the system prompt are those of \<open>normal\<close>, and so is
  the whole run of \<open>askAI\<close>.
\<close>

lemma unrecognized_mode_is_normal:
  assumes "mode \<notin> set [''normal'', ''reasoning'', ''search'']"
    and "mode \<notin> set object_prototype_names"
  shows "selected_chain mode = selected_chain ''normal''"
    and "system_prompt mode = system_prompt ''normal''"
    and "askAI keys net tr um us sp sm hist mode = askAI keys net tr um us sp sm hist ''normal''"
proof -
  show c: "selected_chain mode = selected_chain ''normal''"
    using assms by (simp add: selected_chain_def lookup_def FALLBACK_CHAINS_def)
  show p: "system_prompt mode = system_prompt ''normal''"
    using assms by (simp add: system_prompt_def lookup_def SYSTEM_PROMPTS_def normal_prompt_def)
  have "mode \<noteq> ''search''" using assms(1) by auto
  then have "compose keys net tr um us hist mode = compose keys net tr um us hist ''normal''"
    using p by (simp add: compose_def)
  moreover have "chain_phase keys net t mode ms = chain_phase keys net t ''normal'' ms" for t ms
    using c by (simp add: chain_phase_def)
  ultimately
  show "askAI keys net tr um us sp sm hist mode = askAI keys net tr um us sp sm hist ''normal''"
    by (simp add: askAI_def Let_def split: sum.split option.split)
qed

text \<open>
  C6. The mode \<open>constructor\<close> is outside the three configured modes, yet it does not fall
  back to the normal mode: \<open>SYSTEM_PROMPTS[mode]\<close> and \<open>FALLBACK_CHAINS[mode]\<close> find the
  inherited \<open>Object\<close> function, which is truthy, so neither \<open>||\<close> takes its right-hand
  side. The system prompt is that function, and with no override the \<open>for ... of\<close> loop
  throws a TypeError before any provider is tried, where mode \<open>normal\<close> selects
  \<open>normal_chain\<close> and \<open>normal_prompt\<close>.
\<close>

theorem askAI_inherited_mode_throws:
  "askAI keys net tr um False None None hist ''constructor''
     = (Inl (TypeError ''chain is not iterable''), tr)
   \<and> system_prompt ''constructor'' = JNative ''constructor''
   \<and> selected_chain ''normal'' = Inr normal_chain
   \<and> system_prompt ''normal'' = JStr normal_prompt"
  by (simp add: askAI_def compose_def override_probe_def chain_phase_def selected_chain_def
      system_prompt_def lookup_def FALLBACK_CHAINS_def SYSTEM_PROMPTS_def
      object_prototype_names_def normal_prompt_def Let_def)

section \<open>The layout of the message list\<close>

text \<open>
  C3, as the claim states it: the search context stands right after the base system prompt
  and before the history window. With one history entry and a search that finds text, the
  list \<open>askAI\<close> builds has the history entry second and the search context third.
\<close>

theorem compose_counterexample:
  "fst (compose no_keys (constant_net (JObj [(''Abstract'', JStr ''A'')])) []
          ''q'' True [msg ''user'' ''old''] ''normal'')
     = [msg ''system'' normal_prompt, msg ''user'' ''old'',
        msg ''system'' (''Hasil pencarian:'' @ newline @ pin @ '' A''), msg ''user'' ''q'']
   \<and> fst (compose no_keys (constant_net (JObj [(''Abstract'', JStr ''A'')])) []
          ''q'' True [msg ''user'' ''old''] ''normal'')
     \<noteq> claimed_layout (msg ''system'' normal_prompt)
          [msg ''system'' (''Hasil pencarian:'' @ newline @ pin @ '' A'')]
          [msg ''user'' ''old''] (msg ''user'' ''q'')"
  by (simp add: compose_def search_def search_engine_def searchDDG_def settle_def http_def
      constant_net_def ddg_request_def ddg_path_def bind_err_def get_prop_def or_nil_def
      flatten_def search_context_def system_prompt_def lookup_def SYSTEM_PROMPTS_def
      claimed_layout_def msg_def last_n_def Let_def)

text \<open>
  C3, amended. The message list \<open>askAI\<close> assembles is, in this order: the base system
  prompt of the mode; the trailing window of the history, at most eight entries, in their
  order; at most one search-context message, a system message that starts with
  \<open>Hasil pencarian:\<close>, present exactly when a search ran (the flag is set or the mode is
  \<open>search\<close>) and found something; the new user message, last. The search context
  stands after the history window, directly before the user message.
\<close>

theorem compose_layout:
  "fst (compose keys net tr um us hist mode) =
     \<lparr>role = ''system'', content = system_prompt mode\<rparr> # last_n 8 hist
       @ (if (us \<or> mode = ''search'') \<and> truthy (fst (search keys net tr um ''duckduckgo'' 5))
          then [\<lparr>role = ''system'',
                  content = JStr (''Hasil pencarian:'' @ newline
                                    @ to_string (fst (search keys net tr um ''duckduckgo'' 5)))\<rparr>]
          else [])
       @ [\<lparr>role = ''user'', content = JStr um\<rparr>]
   \<and> length (last_n 8 hist) \<le> 8
   \<and> (\<exists>older. hist = older @ last_n 8 hist)"
proof -
  have "hist = take (length hist - 8) hist @ last_n 8 hist"
    by (simp add: last_n_def)
  then have window: "\<exists>older. hist = older @ last_n 8 hist" ..
  have bound: "length (last_n 8 hist) \<le> 8"
    unfolding last_n_def length_drop by arith
  have "hist = [] \<Longrightarrow> last_n 8 hist = []"
    by (simp add: last_n_def)
  then have "fst (compose keys net tr um us hist mode) =
     \<lparr>role = ''system'', content = system_prompt mode\<rparr> # last_n 8 hist
       @ (if (us \<or> mode = ''search'') \<and> truthy (fst (search keys net tr um ''duckduckgo'' 5))
          then [\<lparr>role = ''system'',
                  content = JStr (''Hasil pencarian:'' @ newline
                                    @ to_string (fst (search keys net tr um ''duckduckgo'' 5)))\<rparr>]
          else [])
       @ [\<lparr>role = ''user'', content = JStr um\<rparr>]"
    by (auto simp: compose_def Let_def search_context_def)
  with bound window show ?thesis by blast
qed

section \<open>The dispatch loop\<close>

text \<open>Unfolding sets for evaluating the catalog and one attempt on concrete inputs.\<close>

lemmas catalog_defs = isProviderAvailable_def PROVIDERS_def lookup_def providers_table_def
  plain_def anonymous_tier_def object_prototype_names_def no_keys_def cand_def

lemmas attempt_defs = tryProvider_def adapter_call_def openAIRequest_def mlvocaRequest_def
  settle_def http_def Let_def

text \<open>The loop ends without a reply exactly when every candidate fails.\<close>

lemma all_fail_chain_loop:
  "all_fail keys net tr cs msgs = Some tr1 \<longleftrightarrow> chain_loop keys net tr cs msgs = (Inr None, tr1)"
proof (induction cs arbitrary: tr)
  case Nil
  then show ?case by auto
next
  case (Cons c cs)
  show ?case
  proof (cases "isProviderAvailable keys (provider c)")
    case (Inl e)
    then show ?thesis by simp
  next
    case (Inr b)
    show ?thesis
    proof (cases b)
      case False
      with Inr Cons show ?thesis by simp
    next
      case True
      with Inr Cons show ?thesis
        by (cases "fst (tryProvider keys net tr (provider c) (model c) msgs)")
           (simp_all add: Let_def)
    qed
  qed
qed

lemma all_fail_length:
  "all_fail keys net tr cs msgs = Some tr1 \<Longrightarrow> length tr1 \<le> length tr + length cs"
proof (induction cs arbitrary: tr)
  case Nil
  then show ?case by simp
next
  case (Cons c cs)
  show ?case
  proof (cases "isProviderAvailable keys (provider c) = Inr False")
    case True
    with Cons.prems have "all_fail keys net tr cs msgs = Some tr1" by simp
    from Cons.IH [OF this] show ?thesis by simp
  next
    case False
    with Cons.prems
    have "all_fail keys net (snd (tryProvider keys net tr (provider c) (model c) msgs)) cs msgs
            = Some tr1"
      by (simp split: sum.splits bool.splits if_splits)
    from Cons.IH [OF this] tryProvider_length [of keys net tr "provider c" "model c" msgs]
    show ?thesis by simp
  qed
qed

lemma chain_loop_append:
  "chain_loop keys net tr pre msgs = (Inr None, tr1)
   \<Longrightarrow> chain_loop keys net tr (pre @ rest) msgs = chain_loop keys net tr1 rest msgs"
proof (induction pre arbitrary: tr)
  case Nil
  then show ?case by simp
next
  case (Cons c cs)
  show ?case
  proof (cases "isProviderAvailable keys (provider c)")
    case (Inl e)
    with Cons.prems show ?thesis by simp
  next
    case (Inr b)
    show ?thesis
    proof (cases b)
      case False
      with Inr Cons show ?thesis by simp
    next
      case True
      with Inr Cons show ?thesis
        by (cases "fst (tryProvider keys net tr (provider c) (model c) msgs)")
           (simp_all add: Let_def split: if_splits)
    qed
  qed
qed

text \<open>
  C1. Dispatch is a first-match-wins linear scan. For every chain \<open>pre @ k # post\<close> and
  every message list: if the candidates before \<open>k\<close> all fail (each skipped as unavailable
  or unregistered, or attempted with an empty reply or an error that the attempt turns
  into \<open>null\<close>), and \<open>k\<close> is available and its attempt returns a non-empty reply \<open>v\<close>, then
  the loop returns exactly \<open>v\<close>, with the calls as they stand after the attempt on \<open>k\<close>: no
  candidate after \<open>k\<close> is attempted, whatever \<open>post\<close> is. The attempt on \<open>k\<close> adds at most one
  call, and in all at most one call per candidate up to \<open>k\<close> is made: no candidate is
  retried.
\<close>

theorem chain_loop_first_match:
  assumes "all_fail keys net tr pre msgs = Some tr1"
    and "isProviderAvailable keys (provider k) = Inr True"
    and "tryProvider keys net tr1 (provider k) (model k) msgs = (Inr v, tr2)"
    and "truthy v"
  shows "chain_loop keys net tr (pre @ k # post) msgs = (Inr (Some v), tr2)
         \<and> one_more tr1 tr2
         \<and> length tr2 \<le> length tr + length (pre @ [k])"
proof -
  from assms(1) have "chain_loop keys net tr pre msgs = (Inr None, tr1)"
    by (simp add: all_fail_chain_loop)
  then have "chain_loop keys net tr (pre @ k # post) msgs = chain_loop keys net tr1 (k # post) msgs"
    by (rule chain_loop_append)
  moreover have "chain_loop keys net tr1 (k # post) msgs = (Inr (Some v), tr2)"
    using assms(2-4) by simp
  moreover have o: "one_more tr1 tr2"
    using tryProvider_calls [of tr1 keys net "provider k" "model k" msgs] assms(3) by simp
  moreover have "length tr2 \<le> Suc (length tr1)"
    using o by (auto simp: one_more_def)
  moreover have "length tr1 \<le> length tr + length pre"
    using assms(1) by (rule all_fail_length)
  ultimately show ?thesis by simp
qed

theorem chain_loop_first_match_witness:
  "fst (chain_loop no_keys (second_try_net ''hi there'') [] normal_chain [msg ''user'' ''hello''])
     = Inr (Some (JStr ''hi there''))
   \<and> length (snd (chain_loop no_keys (second_try_net ''hi there'') [] normal_chain
                     [msg ''user'' ''hello''])) = 2"
proof -
  let ?net = "second_try_net ''hi there''"
  let ?msgs = "[msg ''user'' ''hello'']"
  let ?pre = "take 7 normal_chain"
  let ?k = "cand ''pollinations'' ''gemini''"
  let ?post = "drop 8 normal_chain"
  have split: "normal_chain = ?pre @ ?k # ?post"
    by (simp add: normal_chain_def)
  obtain tr1 where f: "all_fail no_keys ?net [] ?pre ?msgs = Some tr1" and l1: "length tr1 = 1"
    by (simp add: normal_chain_def catalog_defs attempt_defs second_try_net_def)
  have a: "isProviderAvailable no_keys (provider ?k) = Inr True"
    by (simp add: catalog_defs)
  obtain tr2 where t: "tryProvider no_keys ?net tr1 (provider ?k) (model ?k) ?msgs
                         = (Inr (JStr ''hi there''), tr2)" and l2: "length tr2 = 2"
    using l1
    by (cases tr1)
       (simp_all add: catalog_defs attempt_defs second_try_net_def completion_def openai_path_def
          get_prop_def opt_prop_def or_null_def)
  have v: "truthy (JStr ''hi there'')" by simp
  from chain_loop_first_match [OF f a t v, of ?post] split l2
  show ?thesis by simp
qed

section \<open>The exhausted chain\<close>


lemma chain_loop_truthy:
  "chain_loop keys net tr cs msgs = (Inr (Some v), tr') \<Longrightarrow> truthy v"
proof (induction cs arbitrary: tr)
  case Nil
  then show ?case by simp
next
  case (Cons c cs)
  show ?case
  proof (cases "isProviderAvailable keys (provider c)")
    case (Inl e)
    with Cons.prems show ?thesis by simp
  next
    case (Inr b)
    show ?thesis
    proof (cases b)
      case False
      with Inr Cons show ?thesis by simp
    next
      case True
      with Inr Cons show ?thesis
        by (cases "fst (tryProvider keys net tr (provider c) (model c) msgs)")
           (auto simp: Let_def split: if_splits)
    qed
  qed
qed

lemma chain_loop_truthy_fst:
  "fst (chain_loop keys net tr cs msgs) = Inr (Some v) \<Longrightarrow> truthy v"
  by (cases "chain_loop keys net tr cs msgs") (auto dest: chain_loop_truthy)

lemma chain_phase_truthy:
  "fst (chain_phase keys net tr mode msgs) = Inr v \<Longrightarrow> truthy v"
  by (auto simp: chain_phase_def Let_def apology_def
      split: sum.splits option.splits dest: chain_loop_truthy_fst)

lemma override_probe_truthy:
  "fst (override_probe keys net tr sp sm msgs) = Inr (Some v) \<Longrightarrow> truthy v"
  by (auto simp: override_probe_def Let_def split: option.splits sum.splits bool.splits if_splits)



section \<open>The override probe\<close>

lemma inherited_unavailable:
  assumes "PROVIDERS p = Inherited n"
  shows "isProviderAvailable keys p = Inl no_key_method"
proof -
  from assms have "map_of providers_table p = None"
    by (simp add: PROVIDERS_def lookup_def split: option.splits if_splits)
  then have "\<not> registered p" by (simp add: registered_iff)
  then have "p \<notin> set anonymous_tier" using anonymous_registered by blast
  with assms show ?thesis by (simp add: isProviderAvailable_def)
qed

lemma available_tryProvider_returns:
  assumes "isProviderAvailable keys p = Inr b"
  shows "\<exists>v. fst (tryProvider keys net tr p m msgs) = Inr v"
proof (cases "PROVIDERS p")
  case (Own x)
  then show ?thesis by (simp add: tryProvider_def Let_def split: sum.splits)
next
  case (Inherited n)
  with assms inherited_unavailable [of p n keys] show ?thesis by simp
next
  case Absent
  then show ?thesis by (simp add: tryProvider_def)
qed

text \<open>
  C5. When a provider and a model override are given: if the provider is available, it
  is attempted first, as one attempt adding at most one call, on the messages and calls
  that \<open>compose\<close> leaves; a non-empty reply is the result of \<open>askAI\<close>, and only an
  unusable one lets dispatch go on, from the calls of the probe, to the chain phase of
  the mode, which depends on the mode alone: the override neither adds an entry to the
  chain nor removes one. If the provider is unavailable, the probe is skipped with no
  call: \<open>askAI\<close> is the chain phase run from the calls \<open>compose\<close> leaves, the same as
  \<open>askAI\<close> without an override.
\<close>

theorem override_probe_then_chain:
  "(sp = Some p \<and> p \<noteq> [] \<and> truthy_key sm \<and> isProviderAvailable keys p = Inr True
      \<and> compose keys net tr um us hist mode = (msgs, tr1)
     \<longrightarrow> (\<exists>v tr2. tryProvider keys net tr1 p sm msgs = (Inr v, tr2) \<and> one_more tr1 tr2
            \<and> askAI keys net tr um us sp sm hist mode
                = (if truthy v then (Inr v, tr2) else chain_phase keys net tr2 mode msgs)))
   \<and> (sp = Some p \<and> isProviderAvailable keys p = Inr False
      \<and> compose keys net tr um us hist mode = (msgs, tr1)
     \<longrightarrow> askAI keys net tr um us sp sm hist mode = chain_phase keys net tr1 mode msgs
         \<and> askAI keys net tr um us sp sm hist mode = askAI keys net tr um us None None hist mode)"
proof (intro conjI impI)
  assume a: "sp = Some p \<and> p \<noteq> [] \<and> truthy_key sm \<and> isProviderAvailable keys p = Inr True
      \<and> compose keys net tr um us hist mode = (msgs, tr1)"
  then obtain v where v: "fst (tryProvider keys net tr1 p sm msgs) = Inr v"
    using available_tryProvider_returns by blast
  define tr2 where "tr2 = snd (tryProvider keys net tr1 p sm msgs)"
  have t: "tryProvider keys net tr1 p sm msgs = (Inr v, tr2)"
    using v by (simp add: tr2_def prod_eq_iff)
  have o: "one_more tr1 tr2"
    unfolding tr2_def by (rule tryProvider_calls)
  have "askAI keys net tr um us sp sm hist mode
          = (if truthy v then (Inr v, tr2) else chain_phase keys net tr2 mode msgs)"
    using a t by (simp add: askAI_def override_probe_def)
  with t o show "\<exists>v tr2. tryProvider keys net tr1 p sm msgs = (Inr v, tr2) \<and> one_more tr1 tr2
            \<and> askAI keys net tr um us sp sm hist mode
                = (if truthy v then (Inr v, tr2) else chain_phase keys net tr2 mode msgs)"
    by blast
next
  assume a: "sp = Some p \<and> isProviderAvailable keys p = Inr False
      \<and> compose keys net tr um us hist mode = (msgs, tr1)"
  then have p: "override_probe keys net tr1 sp sm msgs = (Inr None, tr1)"
    by (simp add: override_probe_def)
  with a show "askAI keys net tr um us sp sm hist mode = chain_phase keys net tr1 mode msgs"
    by (simp add: askAI_def)
  have "override_probe keys net tr1 None None msgs = (Inr None, tr1)"
    by (simp add: override_probe_def)
  with a p
  show "askAI keys net tr um us sp sm hist mode = askAI keys net tr um us None None hist mode"
    by (simp add: askAI_def)
qed

theorem override_probe_then_chain_witness:
  "fst (askAI no_keys (second_try_net ''hi there'') [] ''hello'' False
          (Some ''pollinations'') (Some ''openai'') [] ''normal'') = Inr (JStr ''hi there'')
   \<and> length (snd (askAI no_keys (second_try_net ''hi there'') [] ''hello'' False
          (Some ''pollinations'') (Some ''openai'') [] ''normal'')) = 2
   \<and> askAI no_keys failing_net [] ''hello'' False (Some ''groq'') (Some ''llama-3.3-70b-versatile'')
        [] ''normal''
      = askAI no_keys failing_net [] ''hello'' False None None [] ''normal''"
proof -
  let ?net = "second_try_net ''hi there''"
  let ?msgs = "[msg ''system'' normal_prompt, msg ''user'' ''hello'']"
  have c: "compose no_keys net [] ''hello'' False [] ''normal'' = (?msgs, [])" for net
    by (simp add: compose_def system_prompt_def lookup_def SYSTEM_PROMPTS_def msg_def
        normal_prompt_def)
  have a: "isProviderAvailable no_keys ''pollinations'' = Inr True"
    by (simp add: catalog_defs)
  have g: "isProviderAvailable no_keys ''groq'' = Inr False"
    by (simp add: catalog_defs)
  have t: "tryProvider no_keys ?net [] ''pollinations'' (Some ''openai'') ?msgs = (Inr v, tr2)
           \<Longrightarrow> \<not> truthy v \<and> length tr2 = 1" for v tr2
    by (auto simp: catalog_defs attempt_defs second_try_net_def)
  have ch: "length tr2 = 1 \<Longrightarrow>
            fst (chain_phase no_keys ?net tr2 ''normal'' ?msgs) = Inr (JStr ''hi there'')
            \<and> length (snd (chain_phase no_keys ?net tr2 ''normal'' ?msgs)) = 2" for tr2
    by (cases tr2)
       (simp_all add: chain_phase_def selected_chain_def lookup_def FALLBACK_CHAINS_def
          normal_chain_def catalog_defs attempt_defs second_try_net_def completion_def
          openai_path_def get_prop_def opt_prop_def or_null_def)
  from a c [of ?net] t ch
    override_probe_then_chain [of "Some ''pollinations''" "''pollinations''" "Some ''openai''"
      no_keys ?net "[]" "''hello''" False "[]" "''normal''" ?msgs "[]"]
  have first: "fst (askAI no_keys ?net [] ''hello'' False (Some ''pollinations'') (Some ''openai'')
                      [] ''normal'') = Inr (JStr ''hi there'')
               \<and> length (snd (askAI no_keys ?net [] ''hello'' False (Some ''pollinations'')
                      (Some ''openai'') [] ''normal'')) = 2"
    by auto
  from g c [of failing_net]
    override_probe_then_chain [of "Some ''groq''" "''groq''" "Some ''llama-3.3-70b-versatile''"
      no_keys failing_net "[]" "''hello''" False "[]" "''normal''" ?msgs "[]"]
  have "askAI no_keys failing_net [] ''hello'' False (Some ''groq'') (Some ''llama-3.3-70b-versatile'')
          [] ''normal''
        = askAI no_keys failing_net [] ''hello'' False None None [] ''normal''"
    by blast
  with first show ?thesis by blast
qed

section \<open>When the orchestrator returns\<close>

text \<open>
  The configured chains hold no provider name inherited from \<open>Object.prototype\<close>, so the
  loop over them never throws. With a mode and an override provider that are not such
  names either, \<open>askAI\<close> always returns, and what it returns is truthy: the reply of a
  provider or the apology.
\<close>

lemma isProviderAvailable_returns:
  assumes "name \<notin> set object_prototype_names"
  shows "\<exists>b. isProviderAvailable keys name = Inr b"
  using assms
  by (cases "map_of providers_table name")
     (auto simp: isProviderAvailable_def PROVIDERS_def lookup_def)

lemma chain_loop_returns:
  assumes "\<forall>c\<in>set chain. provider c \<notin> set object_prototype_names"
  shows "\<exists>r. fst (chain_loop keys net tr chain msgs) = Inr r"
  using assms
proof (induction chain arbitrary: tr)
  case Nil
  then show ?case by simp
next
  case (Cons c cs)
  then obtain b where b: "isProviderAvailable keys (provider c) = Inr b"
    using isProviderAvailable_returns [of "provider c" keys] by auto
  obtain v where v: "fst (tryProvider keys net tr (provider c) (model c) msgs) = Inr v"
    using available_tryProvider_returns [OF b] by blast
  from Cons have ih: "\<exists>r. fst (chain_loop keys net t cs msgs) = Inr r" for t
    by simp
  show ?case
    using b v ih by (cases b) (simp_all add: Let_def)
qed

lemma configured_chains_registered_names:
  assumes "selected_chain mode = Inr chain"
  shows "\<forall>c\<in>set chain. provider c \<notin> set object_prototype_names"
proof -
  have "chain = normal_chain \<or> chain = reasoning_chain \<or> chain = search_chain"
    using assms
    by (auto simp: selected_chain_def lookup_def FALLBACK_CHAINS_def
        split: option.splits if_splits)
  then show ?thesis
    by (auto simp: normal_chain_def reasoning_chain_def search_chain_def cand_def
        object_prototype_names_def)
qed

lemma chain_phase_returns:
  assumes "mode \<notin> set object_prototype_names"
  shows "\<exists>v. fst (chain_phase keys net tr mode msgs) = Inr v"
proof -
  have "\<exists>chain. selected_chain mode = Inr chain"
    using assms
    by (cases "map_of FALLBACK_CHAINS mode") (simp_all add: selected_chain_def lookup_def)
  then obtain chain where c: "selected_chain mode = Inr chain" ..
  from chain_loop_returns [OF configured_chains_registered_names [OF c]]
  obtain r where "fst (chain_loop keys net tr chain msgs) = Inr r" by blast
  with c show ?thesis
    by (cases r) (simp_all add: chain_phase_def Let_def)
qed

lemma askAI_returns:
  assumes "mode \<notin> set object_prototype_names"
    and "\<forall>p. sp = Some p \<longrightarrow> p \<notin> set object_prototype_names"
  shows "\<exists>v. fst (askAI keys net tr um us sp sm hist mode) = Inr v \<and> truthy v"
proof -
  define cm where "cm = compose keys net tr um us hist mode"
  have "\<exists>r. fst (override_probe keys net (snd cm) sp sm (fst cm)) = Inr r"
  proof (cases sp)
    case None
    then show ?thesis by (simp add: override_probe_def)
  next
    case (Some p)
    with assms(2) obtain b where b: "isProviderAvailable keys p = Inr b"
      using isProviderAvailable_returns [of p keys] by auto
    obtain v where "fst (tryProvider keys net (snd cm) p sm (fst cm)) = Inr v"
      using available_tryProvider_returns [OF b] by blast
    with Some b show ?thesis
      by (cases b) (simp_all add: override_probe_def Let_def)
  qed
  then obtain r where r: "fst (override_probe keys net (snd cm) sp sm (fst cm)) = Inr r" ..
  obtain w where w: "fst (chain_phase keys net (snd (override_probe keys net (snd cm) sp sm (fst cm)))
                            mode (fst cm)) = Inr w"
    using chain_phase_returns [OF assms(1)] by blast
  have "\<exists>v. fst (askAI keys net tr um us sp sm hist mode) = Inr v"
    using r w by (cases r) (simp_all add: askAI_def cm_def [symmetric] Let_def)
  then obtain v where v: "fst (askAI keys net tr um us sp sm hist mode) = Inr v" ..
  moreover have "truthy v"
    using v
    by (auto simp: askAI_def Let_def split: sum.splits option.splits
        dest: override_probe_truthy chain_phase_truthy)
  ultimately show ?thesis by blast
qed

section \<open>The search aggregators\<close>


















section \<open>Clearing the history of a user\<close>

lemma filter_other_user:
  "v \<noteq> u \<Longrightarrow> filter (\<lambda>r. user_id r = v) (filter (\<lambda>r. user_id r \<noteq> u) xs)
              = filter (\<lambda>r. user_id r = v) xs"
  by (induction xs) auto

lemma filter_same_user:
  "filter (\<lambda>r. user_id r = u) (filter (\<lambda>r. user_id r \<noteq> u) xs) = []"
  by (induction xs) auto

text \<open>
  C10. A successful \<open>clearHistory(userId)\<close> removes exactly the conversation rows of the
  given user. Afterwards \<open>getStats(userId)\<close> is 0 and \<open>getHistory(userId, n)\<close> is empty for
  every \<open>n\<close>; the settings of every user, the given one included, are unchanged; and for
  every other user the conversation rows, the count and the history are unchanged.
\<close>

theorem clearHistory_frame:
  "clearHistory None db u = (Inr (), db') \<Longrightarrow>
     conversations db' = filter (\<lambda>r. user_id r \<noteq> u) (conversations db)
   \<and> getStats None db' u = Inr 0
   \<and> (\<forall>n. getHistory None db' u n = Inr [])
   \<and> (\<forall>v. getSettings None db' v = getSettings None db v)
   \<and> user_settings db' = user_settings db
   \<and> (\<forall>v. v \<noteq> u \<longrightarrow>
          filter (\<lambda>r. user_id r = v) (conversations db')
            = filter (\<lambda>r. user_id r = v) (conversations db)
          \<and> getStats None db' v = getStats None db v
          \<and> (\<forall>n. getHistory None db' v n = getHistory None db v n))"
proof -
  assume "clearHistory None db u = (Inr (), db')"
  then have d: "db' = db\<lparr>conversations := filter (\<lambda>r. user_id r \<noteq> u) (conversations db)\<rparr>"
    by (simp add: clearHistory_def)
  show ?thesis
    unfolding d
    by (simp add: getStats_def getHistory_def getSettings_def filter_other_user filter_same_user
        sql_limit_def del: filter_filter)
qed

theorem clearHistory_frame_witness:
  "getStats None (snd (clearHistory None sample_db ''alice'')) ''alice'' = Inr 0
   \<and> getHistory None (snd (clearHistory None sample_db ''alice'')) ''alice'' 10 = Inr []
   \<and> getSettings None (snd (clearHistory None sample_db ''alice'')) ''alice''
       = Inr (Some (Some ''groq'', Some ''qwen-qwq-32b'', Some ''reasoning''))
   \<and> getStats None (snd (clearHistory None sample_db ''alice'')) ''bob'' = Inr 1
   \<and> getHistory None (snd (clearHistory None sample_db ''alice'')) ''bob'' 10
       = Inr [msg ''user'' ''yo'']"
proof -
  let ?db' = "snd (clearHistory None sample_db ''alice'')"
  have c: "clearHistory None sample_db ''alice'' = (Inr (), ?db')"
    by (simp add: clearHistory_def)
  have b: "''bob'' \<noteq> ''alice''" by simp
  have s: "getSettings None sample_db ''alice''
             = Inr (Some (Some ''groq'', Some ''qwen-qwq-32b'', Some ''reasoning''))"
    by (simp add: getSettings_def sample_db_def)
  have g: "getStats None sample_db ''bob'' = Inr 1"
    by (simp add: getStats_def sample_db_def)
  have h: "getHistory None sample_db ''bob'' 10 = Inr [msg ''user'' ''yo'']"
    by (simp add: getHistory_def sample_db_def sql_limit_def msg_def)
  from clearHistory_frame [OF c] b s g h show ?thesis
    by simp
qed

end
